theory Spec2Isabelle
  imports Complex_Main
begin

section \<open>CogView4 denoise invocation: values, errors and collaborators\<close>

text \<open>
  The development follows \<^verbatim>\<open>invokeai/app/invocations/cogview4_denoise.py\<close>.

  A tensor is the list of its samples along the batch axis (axis 0); a sample is a value of
  a type \<open>'a\<close> with an addition, a subtraction and a scaling by a number. The methods are
  written for every such type: the samples of a real vector space compute exactly, those
  of the type \<open>float32\<close> below round every result. Where a statement speaks of exact
  arithmetic its samples are of class \<open>real_vector\<close>. Changes of device and precision
  (\<^verbatim>\<open>.to(...)\<close>) are functions supplied by the environment and left uninterpreted.
  Timesteps, sigmas, the shift and the guidance scales are real numbers, the values of the
  floats that hold them. The rounding of the arithmetic on them is left out, except where
  it decides what the code does: the points of \<^verbatim>\<open>torch.linspace\<close> come from the environment,
  and the literal \<^verbatim>\<open>1e-5\<close> is the double that it denotes.
  Python exceptions are values of the type \<open>error\<close>; a function that can raise returns
  \<open>error + 'b\<close> with \<open>Inl\<close> for the exception.
\<close>

datatype error =
    AssertionError
  | ValueError string
  | NameError string
  | IndexError
  | ZeroDivisionError
  | RuntimeError
  | ComplexResult

datatype dtype = Float16 | BFloat16 | Float32

datatype device = CPU | CUDA | MPS

subsection \<open>Python and torch primitives\<close>

text \<open>
  \<^verbatim>\<open>int(x)\<close> on a float and \<^verbatim>\<open>.to(torch.int64)\<close> on a float tensor both truncate toward
  zero.
\<close>

definition py_int :: "real \<Rightarrow> int" where
  "py_int x = (if 0 \<le> x then \<lfloor>x\<rfloor> else \<lceil>x\<rceil>)"

text \<open>
  Elementwise binary operations broadcast along the batch axis: the batch sizes agree, or
  one of them is 1.
\<close>

definition broadcast2 :: "('a \<Rightarrow> 'a \<Rightarrow> 'a) \<Rightarrow> 'a list \<Rightarrow> 'a list \<Rightarrow> error + 'a list" where
  "broadcast2 f xs ys =
     (if length xs = length ys then Inr (map2 f xs ys)
      else if length xs = 1 then Inr (map (f (hd xs)) ys)
      else if length ys = 1 then Inr (map (\<lambda>x. f x (hd ys)) xs)
      else Inl RuntimeError)"

definition tensor_add :: "('a::plus) list \<Rightarrow> 'a list \<Rightarrow> error + 'a list" where
  "tensor_add = broadcast2 (+)"

definition tensor_sub :: "('a::minus) list \<Rightarrow> 'a list \<Rightarrow> error + 'a list" where
  "tensor_sub = broadcast2 (-)"

definition smul :: "real \<Rightarrow> ('a::scaleR) list \<Rightarrow> 'a list" where
  "smul s xs = map (\<lambda>x. s *\<^sub>R x) xs"

text \<open>
  \<^verbatim>\<open>x.chunk(2)\<close> along the batch axis: pieces of size \<open>\<lceil>n / 2\<rceil>\<close>, so a batch of one
  sample yields a single piece and every other batch yields two.
\<close>

definition chunk2 :: "'a list \<Rightarrow> 'a list list" where
  "chunk2 xs =
     (let split_size = (length xs + 1) div 2
      in if length xs = 1 then [xs] else [take split_size xs, drop split_size xs])"

subsection \<open>Single precision\<close>

text \<open>
  The arithmetic of \<^verbatim>\<open>torch.float32\<close> on one number: the exact result of an operation is
  rounded to 24 significant bits, to the nearest such number, and to the one whose last bit
  is even when two are equally near. The range of the exponent is not modelled. A Python
  float that scales a tensor is converted to the precision of the tensor first.
\<close>

definition round_half_even :: "real \<Rightarrow> int" where
  "round_half_even q =
     (let f = \<lfloor>q\<rfloor>
      in if q - real_of_int f < 1 / 2 then f
         else if 1 / 2 < q - real_of_int f then f + 1
         else if even f then f else f + 1)"

definition float32_round :: "real \<Rightarrow> real" where
  "float32_round x =
     (if x = 0 then 0
      else (let e = \<lfloor>log 2 \<bar>x\<bar>\<rfloor> - 23;
                ulp = (if 0 \<le> e then 2 ^ nat e else 1 / 2 ^ nat (- e))
            in real_of_int (round_half_even (x / ulp)) * ulp))"

datatype float32 = F32 (f32_value: real)

instantiation float32 :: "{plus, minus, scaleR}"
begin

definition plus_float32 :: "float32 \<Rightarrow> float32 \<Rightarrow> float32" where
  "x + y = F32 (float32_round (f32_value x + f32_value y))"

definition minus_float32 :: "float32 \<Rightarrow> float32 \<Rightarrow> float32" where
  "x - y = F32 (float32_round (f32_value x - f32_value y))"

definition scaleR_float32 :: "real \<Rightarrow> float32 \<Rightarrow> float32" where
  "s *\<^sub>R x = F32 (float32_round (float32_round s * f32_value x))"

instance ..

end

subsection \<open>The invocation and its collaborators\<close>

text \<open>
  The fields of \<^verbatim>\<open>CogView4DenoiseInvocation\<close>; \<open>self_steps\<close> is \<^verbatim>\<open>self.steps\<close>. The
  conditioning fields hold the \<^verbatim>\<open>conditioning_name\<close> they carry. \<^verbatim>\<open>_run_diffusion\<close> also reads \<^verbatim>\<open>self.latents\<close>,
  \<^verbatim>\<open>self.denoising_start\<close> and \<^verbatim>\<open>self.denoising_end\<close>; the class body does not declare
  them and its base classes are defined in other modules, so they are taken here as
  further fields of the invocation (\<open>self_latents\<close> holds the \<^verbatim>\<open>latents_name\<close>, if any).
\<close>

datatype cfg_scale_value = CfgFloat real | CfgList "real list" | CfgOther

record CogView4DenoiseInvocation =
  self_positive_conditioning :: string
  self_negative_conditioning :: string
  self_cfg_scale :: cfg_scale_value
  self_width :: int
  self_height :: int
  self_steps :: int
  self_seed :: int
  self_latents :: "string option"
  self_denoising_start :: real
  self_denoising_end :: real

datatype 'a conditioning_info =
    CogView4ConditioningInfo "'a list"
  | OtherConditioningInfo

text \<open>
  The loaded transformer: the two class tests of the source, the configuration entries it
  reads, and the call (\<open>hidden_states\<close>, \<open>timestep\<close>, \<open>encoder_hidden_states\<close>,
  \<open>pooled_projections\<close>). \<open>in_channels\<close> is \<open>None\<close> when the entry is not an integer.
\<close>

record 'a transformer_model =
  is_CogView4Transformer2DModel :: bool
  is_SD3Transformer2DModel :: bool
  patch_size :: int
  in_channels :: "int option"
  forward :: "'a list \<Rightarrow> real list \<Rightarrow> 'a list \<Rightarrow> 'a list \<Rightarrow> 'a list"

record scheduler_config =
  num_train_timesteps :: int
  shift :: real
  use_dynamic_shifting :: bool
  base_shift :: real
  max_shift :: real
  base_image_seq_len :: int
  max_image_seq_len :: int
  invert_sigmas :: bool
  shift_terminal :: "real option"
  use_karras_sigmas :: bool
  use_exponential_sigmas :: bool
  use_beta_sigmas :: bool
  time_shift_type :: string

datatype generator = Generator device "int option"

definition manual_seed :: "generator \<Rightarrow> int \<Rightarrow> generator" where
  "manual_seed g s = (case g of Generator d _ \<Rightarrow> Generator d (Some s))"

text \<open>
  What the module imports from elsewhere and calls: the constant
  \<^verbatim>\<open>LATENT_SCALE_FACTOR\<close>, \<^verbatim>\<open>TorchDevice\<close>, the model, conditioning and tensor stores of the
  invocation context, \<^verbatim>\<open>torch.randn\<close>, the points of \<^verbatim>\<open>torch.linspace\<close>, the tensor casts, the scheduler's \<^verbatim>\<open>set_timesteps\<close>
  (its result is the \<^verbatim>\<open>scheduler.timesteps\<close> read back afterwards),
  \<^verbatim>\<open>clip_timestep_schedule_fractional\<close>, \<^verbatim>\<open>_prep_inpaint_mask\<close> and the merge of
  \<^verbatim>\<open>InpaintExtension\<close> (applied to the extension's three constructor arguments first).
  They are total functions here; their own failures are outside the model.
\<close>

record ('a, 'm) environment =
  LATENT_SCALE_FACTOR :: int
  choose_torch_dtype :: dtype
  choose_torch_device :: device
  load_by_attrs :: "'a transformer_model"
  conditioning_load :: "string \<Rightarrow> 'a conditioning_info list"
  tensors_load :: "string \<Rightarrow> 'a list"
  randn :: "int list \<Rightarrow> device \<Rightarrow> dtype \<Rightarrow> generator \<Rightarrow> 'a list"
  linspace_point :: "real \<Rightarrow> real \<Rightarrow> nat \<Rightarrow> nat \<Rightarrow> real"
  tensor_to :: "device \<Rightarrow> dtype \<Rightarrow> 'a list \<Rightarrow> 'a list"
  to_dtype :: "dtype \<Rightarrow> 'a list \<Rightarrow> 'a list"
  dtype_of :: "'a list \<Rightarrow> dtype"
  set_timesteps :: "scheduler_config \<Rightarrow> int \<Rightarrow> device \<Rightarrow> real list \<Rightarrow> real \<Rightarrow> real list \<Rightarrow> real list"
  clip_timestep_schedule_fractional :: "real list \<Rightarrow> real \<Rightarrow> real \<Rightarrow> real list"
  prep_inpaint_mask :: "'a list \<Rightarrow> 'm option"
  merge_intermediate_latents_with_init_latents ::
    "'a list \<Rightarrow> 'm \<Rightarrow> 'a list \<Rightarrow> 'a list \<Rightarrow> real \<Rightarrow> 'a list"

datatype 'a PipelineIntermediateState =
  PipelineIntermediateState
    (state_step: int) (state_order: int) (state_total_steps: int) (state_timestep: int)
    (state_latents: "'a list")

text \<open>
  What a run does to the outside, in order: calls of the transformer (with the four
  arguments above) and progress snapshots handed to the step callback.
\<close>

datatype 'a event =
    TransformerCall "'a list" "real list" "'a list" "'a list"
  | StepCallback "'a PipelineIntermediateState"

text \<open>
  \<^verbatim>\<open>torch.linspace(start, end, steps)\<close> is a tensor of \<open>steps\<close> points and refuses a negative
  count. torch computes the points in single precision, where they are not always the
  exact points \<open>start + i * (end - start) / (steps - 1)\<close>; \<open>linspace_point env start end steps i\<close>
  is point \<open>i\<close> as torch computes it.
\<close>

definition linspace :: "('a, 'm) environment \<Rightarrow> real \<Rightarrow> real \<Rightarrow> int \<Rightarrow> error + real list" where
  "linspace env start stop steps =
     (if steps < 0 then Inl RuntimeError
      else Inr (map (linspace_point env start stop (nat steps)) [0..<nat steps]))"

section \<open>The methods of the invocation\<close>

subsection \<open>\<^verbatim>\<open>_load_text_conditioning\<close>\<close>

definition load_text_conditioning ::
  "('a, 'm) environment \<Rightarrow> string \<Rightarrow> dtype \<Rightarrow> device \<Rightarrow> error + 'a list" where
  "load_text_conditioning env conditioning_name dtype device =
     (case conditioning_load env conditioning_name of
        [cogview4_conditioning] \<Rightarrow>
          (case cogview4_conditioning of
             CogView4ConditioningInfo glm_embeds \<Rightarrow> Inr (tensor_to env device dtype glm_embeds)
           | OtherConditioningInfo \<Rightarrow> Inl AssertionError)
      | _ \<Rightarrow> Inl AssertionError)"

subsection \<open>\<^verbatim>\<open>_get_noise\<close>\<close>

text \<open>
  \<^verbatim>\<open>torch.randn\<close> is called on the fixed device and precision with a freshly seeded
  generator; the result is cast to the requested device and precision afterwards.
\<close>

definition get_noise ::
  "('a, 'm) environment \<Rightarrow> int \<Rightarrow> int \<Rightarrow> int \<Rightarrow> int \<Rightarrow> dtype \<Rightarrow> device \<Rightarrow> int \<Rightarrow> error + 'a list" where
  "get_noise env batch_size num_channels_latents height width dtype device seed =
     (let rand_device = CPU;
          rand_dtype = Float16
      in if LATENT_SCALE_FACTOR env = 0 then Inl ZeroDivisionError
         else Inr (tensor_to env device dtype
                     (randn env
                        [batch_size, num_channels_latents,
                         height div LATENT_SCALE_FACTOR env, width div LATENT_SCALE_FACTOR env]
                        rand_device rand_dtype
                        (manual_seed (Generator rand_device None) seed))))"

subsection \<open>\<^verbatim>\<open>_prepare_cfg_scale\<close>\<close>

text \<open>Python's \<^verbatim>\<open>[s] * n\<close> is the empty list for \<open>n \<le> 0\<close>.\<close>

definition prepare_cfg_scale :: "CogView4DenoiseInvocation \<Rightarrow> int \<Rightarrow> error + real list" where
  "prepare_cfg_scale self num_timesteps =
     (case self_cfg_scale self of
        CfgFloat s \<Rightarrow> Inr (replicate (nat num_timesteps) s)
      | CfgList xs \<Rightarrow>
          if int (length xs) = num_timesteps then Inr xs else Inl AssertionError
      | CfgOther \<Rightarrow> Inl (ValueError ''Invalid CFG scale type''))"

subsection \<open>\<^verbatim>\<open>_init_scheduler\<close>, \<^verbatim>\<open>_calculate_timestep_shift\<close>, \<^verbatim>\<open>_prepare_timesteps\<close>\<close>

definition init_scheduler :: scheduler_config where
  "init_scheduler =
     \<lparr> num_train_timesteps = 1000, shift = 1, use_dynamic_shifting = True,
       base_shift = 1 / 4, max_shift = 3 / 4, base_image_seq_len = 256,
       max_image_seq_len = 4096, invert_sigmas = False, shift_terminal = None,
       use_karras_sigmas = False, use_exponential_sigmas = False, use_beta_sigmas = False,
       time_shift_type = ''linear'' \<rparr>"

text \<open>
  \<^verbatim>\<open>(image_seq_len / base_seq_len) ** 0.5\<close>: the division raises on a zero divisor, and the
  power of a negative float is a complex number in Python, which has no counterpart among
  the reals of the model.
\<close>

definition calculate_timestep_shift :: "int \<Rightarrow> int \<Rightarrow> real \<Rightarrow> real \<Rightarrow> error + real" where
  "calculate_timestep_shift image_seq_len base_seq_len base_shift' max_shift' =
     (if base_seq_len = 0 then Inl ZeroDivisionError
      else if real_of_int image_seq_len / real_of_int base_seq_len < 0 then Inl ComplexResult
      else (let m = sqrt (real_of_int image_seq_len / real_of_int base_seq_len);
                mu = m * max_shift' + base_shift'
            in Inr mu))"

definition prepare_timesteps ::
  "('a, 'm) environment \<Rightarrow> scheduler_config \<Rightarrow> int \<Rightarrow> int \<Rightarrow> error + real list" where
  "prepare_timesteps env scheduler num_steps image_seq_len =
     (case linspace env (real_of_int (num_train_timesteps scheduler)) 1 num_steps of
        Inl e \<Rightarrow> Inl e
      | Inr timesteps0 \<Rightarrow>
          (let timesteps = map (\<lambda>t. real_of_int (py_int t)) timesteps0;
               sigmas = map (\<lambda>t. t / real_of_int (num_train_timesteps scheduler)) timesteps
           in case calculate_timestep_shift image_seq_len (base_image_seq_len scheduler)
                     (base_shift scheduler) (max_shift scheduler) of
                Inl e \<Rightarrow> Inl e
              | Inr mu \<Rightarrow>
                  Inr (set_timesteps env scheduler num_steps (choose_torch_device env)
                         sigmas mu timesteps)))"

subsection \<open>\<^verbatim>\<open>_run_diffusion\<close>: preparation\<close>

text \<open>
  Everything \<^verbatim>\<open>_run_diffusion\<close> computes before it prepares the input latents, in the
  order of the source. \<open>scheduler_timesteps\<close> is the value that the call of
  \<^verbatim>\<open>_prepare_timesteps\<close> assigns to \<^verbatim>\<open>timesteps\<close>; \<open>timesteps\<close> is the value the variable
  holds after the two assignments that follow. The three size tensors built from width
  and height are not read again and are left out.
\<close>

record 'a prepared =
  transformer_info :: "'a transformer_model"
  prompt_embeds :: "'a list"
  scheduler_timesteps :: "real list"
  timesteps :: "real list"
  total_steps :: int
  cfg_scale :: "real list"
  init_latents :: "'a list option"
  noise :: "'a list"

definition prepare_run ::
  "('a, 'm) environment \<Rightarrow> CogView4DenoiseInvocation \<Rightarrow> error + 'a prepared" where
  "prepare_run env self =
     (let inference_dtype = choose_torch_dtype env;
          device = choose_torch_device env;
          info = load_by_attrs env
      in if \<not> is_CogView4Transformer2DModel info then Inl AssertionError
         else
           case load_text_conditioning env (self_positive_conditioning self)
                  inference_dtype device of
             Inl e \<Rightarrow> Inl e
           | Inr pos_prompt_embeds \<Rightarrow>
           case load_text_conditioning env (self_negative_conditioning self)
                  inference_dtype device of
             Inl e \<Rightarrow> Inl e
           | Inr neg_prompt_embeds \<Rightarrow>
           if LATENT_SCALE_FACTOR env = 0 \<or> (patch_size info)\<^sup>2 = 0 then Inl ZeroDivisionError
           else
             (let image_seq_len =
                    ((self_height self div LATENT_SCALE_FACTOR env) *
                     (self_width self div LATENT_SCALE_FACTOR env)) div (patch_size info)\<^sup>2
              in case prepare_timesteps env init_scheduler (self_steps self) image_seq_len of
                   Inl e \<Rightarrow> Inl e
                 | Inr sched_ts \<Rightarrow>
                 case linspace env 1 0 (self_steps self + 1) of
                   Inl e \<Rightarrow> Inl e
                 | Inr linear_ts \<Rightarrow>
                 (let ts = clip_timestep_schedule_fractional env linear_ts
                             (self_denoising_start self) (self_denoising_end self);
                      n = int (length ts) - 1
                  in case prepare_cfg_scale self n of
                       Inl e \<Rightarrow> Inl e
                     | Inr scales \<Rightarrow>
                     case in_channels info of
                       None \<Rightarrow> Inl AssertionError
                     | Some num_channels_latents \<Rightarrow>
                     case get_noise env 1 num_channels_latents (self_height self)
                            (self_width self) inference_dtype device (self_seed self) of
                       Inl e \<Rightarrow> Inl e
                     | Inr nz \<Rightarrow>
                         Inr \<lparr> transformer_info = info,
                               prompt_embeds = neg_prompt_embeds @ pos_prompt_embeds,
                               scheduler_timesteps = sched_ts,
                               timesteps = ts,
                               total_steps = n,
                               cfg_scale = scales,
                               init_latents =
                                 map_option
                                   (\<lambda>name. tensor_to env device inference_dtype
                                              (tensors_load env name))
                                   (self_latents self),
                               noise = nz \<rparr>)))"

subsection \<open>\<^verbatim>\<open>_run_diffusion\<close>: the input latents\<close>

text \<open>
  The literal \<^verbatim>\<open>1e-5\<close> is the double nearest to \<open>10\<^sup>-\<^sup>5\<close>, which is
  \<open>5902958103587057 / 2\<^sup>6\<^sup>9\<close>, a little above \<open>10\<^sup>-\<^sup>5\<close>. \<^verbatim>\<open>self.denoising_start\<close> is a double
  as well, and the comparison of two doubles is exact: it is the comparison of their values.
\<close>

definition double_1e_minus_5 :: real where
  "double_1e_minus_5 = 5902958103587057 / 2 ^ 69"

definition prepare_input_latents ::
  "CogView4DenoiseInvocation \<Rightarrow> ('a::{plus,minus,scaleR}) list option \<Rightarrow> real list \<Rightarrow> 'a list
     \<Rightarrow> error + 'a list" where
  "prepare_input_latents self init ts nz =
     (case init of
        Some init_lat \<Rightarrow>
          (case ts of
             [] \<Rightarrow> Inl IndexError
           | t_0 # _ \<Rightarrow> tensor_add (smul t_0 nz) (smul (1 - t_0) init_lat))
      | None \<Rightarrow>
          if self_denoising_start self > double_1e_minus_5
          then Inl (ValueError
                 ''denoising_start should be 0 when initial latents are not provided.'')
          else Inr nz)"

subsection \<open>\<^verbatim>\<open>_run_diffusion\<close>: the denoising loop\<close>

text \<open>The local flag of \<^verbatim>\<open>_run_diffusion\<close>.\<close>

definition do_classifier_free_guidance :: bool where
  "do_classifier_free_guidance = True"

text \<open>
  The block under \<^verbatim>\<open># Apply CFG.\<close>, for step \<open>step_idx\<close>. Unpacking the chunks into two
  names needs exactly two of them.
\<close>

definition apply_cfg ::
  "bool \<Rightarrow> real list \<Rightarrow> nat \<Rightarrow> ('a::{plus,minus,scaleR}) list \<Rightarrow> error + 'a list" where
  "apply_cfg do_cfg scales step_idx noise_pred =
     (if do_cfg then
        (case chunk2 noise_pred of
           [noise_pred_uncond, noise_pred_cond] \<Rightarrow>
             if step_idx < length scales then
               (case tensor_sub noise_pred_cond noise_pred_uncond of
                  Inl e \<Rightarrow> Inl e
                | Inr diff \<Rightarrow> tensor_add noise_pred_uncond (smul (scales ! step_idx) diff))
             else Inl IndexError
         | _ \<Rightarrow> Inl (ValueError ''not enough values to unpack''))
      else Inr noise_pred)"

text \<open>
  One pass through the body of the loop. The call of the transformer reads the name
  \<^verbatim>\<open>pooled_prompt_embeds\<close>; \<open>pooled\<close> is what the name is bound to where the call is
  evaluated, \<open>None\<close> when it is bound to nothing, and reading an unbound name raises
  \<^verbatim>\<open>NameError\<close> before the call is made. \<open>inpaint_extension\<close> is the merge of the
  extension, if there is one.
\<close>

definition denoise_step ::
  "('a::{plus,minus,scaleR}, 'm) environment \<Rightarrow> 'a transformer_model \<Rightarrow> 'a list option
     \<Rightarrow> bool
     \<Rightarrow> 'a list \<Rightarrow> real list \<Rightarrow> ('a list \<Rightarrow> real \<Rightarrow> 'a list) option \<Rightarrow> int
     \<Rightarrow> nat \<Rightarrow> real \<Rightarrow> real \<Rightarrow> 'a list \<Rightarrow> 'a event list \<times> (error + 'a list)" where
  "denoise_step env transformer pooled do_cfg embeds scales inpaint_extension n
       step_idx t_curr t_prev lat =
     (let latent_model_input = (if do_cfg then lat @ lat else lat);
          timestep = replicate (length latent_model_input) (t_curr * 1000)
      in case pooled of
           None \<Rightarrow> ([], Inl (NameError ''pooled_prompt_embeds''))
         | Some pooled_prompt_embeds \<Rightarrow>
             (let call = TransformerCall latent_model_input timestep embeds
                           pooled_prompt_embeds;
                  noise_pred = forward transformer latent_model_input timestep embeds
                                 pooled_prompt_embeds
              in case apply_cfg do_cfg scales step_idx noise_pred of
                   Inl e \<Rightarrow> ([call], Inl e)
                 | Inr guided \<Rightarrow>
                     (let latents_dtype = dtype_of env lat
                      in case tensor_add (to_dtype env Float32 lat)
                                (smul (t_prev - t_curr) guided) of
                           Inl e \<Rightarrow> ([call], Inl e)
                         | Inr stepped \<Rightarrow>
                             (let cast_back = to_dtype env latents_dtype stepped;
                                  merged = (case inpaint_extension of
                                              None \<Rightarrow> cast_back
                                            | Some merge \<Rightarrow> merge cast_back t_prev)
                              in ([call,
                                   StepCallback
                                     (PipelineIntermediateState (int step_idx + 1) 1 n
                                        (py_int t_curr) merged)],
                                  Inr merged)))))"

text \<open>
  The \<^verbatim>\<open>for\<close> loop over \<^verbatim>\<open>enumerate(zip(timesteps[:-1], timesteps[1:]))\<close>: an exception ends
  it, and what was emitted before stays emitted.
\<close>

fun denoise_loop ::
  "('a::{plus,minus,scaleR}, 'm) environment \<Rightarrow> 'a transformer_model \<Rightarrow> 'a list option
     \<Rightarrow> bool
     \<Rightarrow> 'a list \<Rightarrow> real list \<Rightarrow> ('a list \<Rightarrow> real \<Rightarrow> 'a list) option \<Rightarrow> int
     \<Rightarrow> (nat \<times> real \<times> real) list \<Rightarrow> 'a list \<Rightarrow> 'a event list \<times> (error + 'a list)" where
  "denoise_loop env transformer pooled do_cfg embeds scales inpaint_extension n [] lat =
     ([], Inr lat)"
| "denoise_loop env transformer pooled do_cfg embeds scales inpaint_extension n
       ((step_idx, t_curr, t_prev) # rest) lat =
     (case denoise_step env transformer pooled do_cfg embeds scales inpaint_extension n
             step_idx t_curr t_prev lat of
        (evs, Inl e) \<Rightarrow> (evs, Inl e)
      | (evs, Inr lat') \<Rightarrow>
          (case denoise_loop env transformer pooled do_cfg embeds scales inpaint_extension n
                  rest lat' of
             (evs', r) \<Rightarrow> (evs @ evs', r)))"

definition timestep_pairs :: "real list \<Rightarrow> (nat \<times> real \<times> real) list" where
  "timestep_pairs ts = List.enumerate 0 (zip (butlast ts) (tl ts))"

subsection \<open>\<^verbatim>\<open>_run_diffusion\<close>\<close>

text \<open>
  \<^verbatim>\<open>_run_diffusion\<close> with the binding of \<^verbatim>\<open>pooled_prompt_embeds\<close> as a parameter: the events
  of the run and its outcome.
\<close>

definition run_diffusion_with ::
  "'a list option \<Rightarrow> ('a::{plus,minus,scaleR}, 'm) environment \<Rightarrow> CogView4DenoiseInvocation
     \<Rightarrow> 'a event list \<times> (error + 'a list)" where
  "run_diffusion_with pooled env self =
     (case prepare_run env self of
        Inl e \<Rightarrow> ([], Inl e)
      | Inr p \<Rightarrow>
        case prepare_input_latents self (init_latents p) (timesteps p) (noise p) of
          Inl e \<Rightarrow> ([], Inl e)
        | Inr lat \<Rightarrow>
          if length (timesteps p) \<le> 1 then ([], Inr lat)
          else
            case (case prep_inpaint_mask env lat of
                    None \<Rightarrow> Inr None
                  | Some inpaint_mask \<Rightarrow>
                      (case init_latents p of
                         None \<Rightarrow> Inl AssertionError
                       | Some init_lat \<Rightarrow>
                           Inr (Some (merge_intermediate_latents_with_init_latents env
                                        init_lat inpaint_mask (noise p))))) of
              Inl e \<Rightarrow> ([], Inl e)
            | Inr inpaint_extension \<Rightarrow>
                (let first = StepCallback
                               (PipelineIntermediateState 0 1 (total_steps p)
                                  (py_int (hd (timesteps p))) lat)
                 in if \<not> is_SD3Transformer2DModel (transformer_info p)
                    then ([first], Inl AssertionError)
                    else
                      (case denoise_loop env (transformer_info p) pooled
                              do_classifier_free_guidance (prompt_embeds p) (cfg_scale p)
                              inpaint_extension (total_steps p)
                              (timestep_pairs (timesteps p)) lat of
                         (evs, r) \<Rightarrow> (first # evs, r))))"

text \<open>
  The module binds \<^verbatim>\<open>pooled_prompt_embeds\<close> nowhere: it is not assigned in
  \<^verbatim>\<open>_run_diffusion\<close>, not a parameter of it, not imported and not defined at module level.
\<close>

definition run_diffusion ::
  "('a::{plus,minus,scaleR}, 'm) environment \<Rightarrow> CogView4DenoiseInvocation
     \<Rightarrow> 'a event list \<times> (error + 'a list)" where
  "run_diffusion = run_diffusion_with None"

section \<open>Concrete environments\<close>

text \<open>
  \<^verbatim>\<open>clip_timestep_schedule_fractional\<close> is defined in
  \<^verbatim>\<open>invokeai.backend.flux.sampling_utils\<close> and stays a field of the environment in every
  general statement. Where a run is evaluated on concrete values, the field is filled with
  the following clipping function: the range of the schedule is from \<open>1 - denoising_start\<close>
  down to \<open>1 - denoising_end\<close>, the timesteps strictly inside it are kept and its two
  ends are put at both ends, a single timestep when the two ends coincide.
\<close>

definition clip_between :: "real list \<Rightarrow> real \<Rightarrow> real \<Rightarrow> real list" where
  "clip_between ts denoising_start denoising_end =
     (let t_start_val = 1 - denoising_start;
          t_end_val = 1 - denoising_end
      in if t_start_val = t_end_val then [t_start_val]
         else t_start_val # filter (\<lambda>t. t_end_val < t \<and> t < t_start_val) ts @ [t_end_val])"

text \<open>
  The exact points of a linear sequence. Where a run is evaluated on concrete values they
  stand for the points of \<^verbatim>\<open>torch.linspace\<close>: for the sequences of the examples (from 1 to 0
  with two and five points, from 1000 to 1 with one, four and five points) every point and
  the distance between two points are numbers of single precision, so that nothing is
  rounded.
\<close>

definition exact_linspace_point :: "real \<Rightarrow> real \<Rightarrow> nat \<Rightarrow> nat \<Rightarrow> real" where
  "exact_linspace_point start stop n i = start + real i * ((stop - start) / real (n - 1))"

text \<open>
  A transformer that passes both class tests and predicts the constant 2 for every sample
  of its batch.
\<close>

definition stub_transformer :: "real transformer_model" where
  "stub_transformer =
     \<lparr> is_CogView4Transformer2DModel = True, is_SD3Transformer2DModel = True,
       patch_size = 2, in_channels = Some 16,
       forward = (\<lambda>hidden_states timestep encoder_hidden_states pooled_projections.
                    map (\<lambda>x. 2) hidden_states) \<rparr>"

text \<open>The same transformer, predicting for every sample the embedding it comes with.\<close>

definition embeds_transformer :: "real transformer_model" where
  "embeds_transformer =
     stub_transformer
       \<lparr> forward := (\<lambda>hidden_states timestep encoder_hidden_states pooled_projections.
                       encoder_hidden_states) \<rparr>"

text \<open>
  An environment over one-number samples: the seeded generator yields the seed as the one
  sample of the batch, the casts change nothing, the scheduler resolves to the timesteps it
  is given, the stored latents are the sample 10 and no inpaint mask is present.
\<close>

definition stub_env :: "(real, unit) environment" where
  "stub_env =
     \<lparr> LATENT_SCALE_FACTOR = 8, choose_torch_dtype = BFloat16, choose_torch_device = CUDA,
       load_by_attrs = stub_transformer,
       conditioning_load =
         (\<lambda>name. [CogView4ConditioningInfo [if name = ''positive'' then 1 else 0]]),
       tensors_load = (\<lambda>name. [10]),
       randn = (\<lambda>shape dev dt g. case g of Generator d None \<Rightarrow> [0]
                                          | Generator d (Some s) \<Rightarrow> [real_of_int s]),
       linspace_point = exact_linspace_point,
       tensor_to = (\<lambda>dev dt x. x),
       to_dtype = (\<lambda>dt x. x),
       dtype_of = (\<lambda>x. BFloat16),
       set_timesteps = (\<lambda>config n dev sigmas mu ts. ts),
       clip_timestep_schedule_fractional = clip_between,
       prep_inpaint_mask = (\<lambda>lat. None),
       merge_intermediate_latents_with_init_latents = (\<lambda>init mask nz lat t. lat) \<rparr>"

definition stub_invocation :: CogView4DenoiseInvocation where
  "stub_invocation =
     \<lparr> self_positive_conditioning = ''positive'', self_negative_conditioning = ''negative'',
       self_cfg_scale = CfgFloat (7 / 2), self_width = 1024, self_height = 1024,
       self_steps = 1, self_seed = 42, self_latents = None,
       self_denoising_start = 0, self_denoising_end = 1 \<rparr>"

section \<open>Event traces and the words of the specification\<close>

text \<open>The progress snapshots of a trace, in the order of their emission.\<close>

fun snapshots :: "'a event list \<Rightarrow> 'a PipelineIntermediateState list" where
  "snapshots [] = []"
| "snapshots (StepCallback st # evs) = st # snapshots evs"
| "snapshots (TransformerCall hidden_states timestep embeds pooled # evs) = snapshots evs"

text \<open>
  A trace in which every call of the transformer receives the latents of the snapshot
  emitted last before it, twice along the batch axis, together with the given
  embeddings. \<open>current\<close> is the latents of the last snapshot so far.
\<close>

fun calls_doubled :: "'a list \<Rightarrow> 'a list option \<Rightarrow> 'a event list \<Rightarrow> bool" where
  "calls_doubled embeds current [] = True"
| "calls_doubled embeds current (StepCallback st # evs) =
     calls_doubled embeds (Some (state_latents st)) evs"
| "calls_doubled embeds current (TransformerCall hidden_states timestep embeds' pooled # evs) =
     ((case current of None \<Rightarrow> False | Some lat \<Rightarrow> hidden_states = lat @ lat) \<and>
      embeds' = embeds \<and> calls_doubled embeds current evs)"

text \<open>
  One denoising step as the specification words it. The prediction of the transformer on
  the latents, taken twice along the batch axis, is split into an unconditional and a
  conditional half; the two are combined as \<open>uncond + scale * (cond - uncond)\<close>; the
  latents move along the combined prediction from \<open>t_curr\<close> to \<open>t_prev\<close>.
\<close>

definition cfg_combine ::
  "real \<Rightarrow> ('a::{plus,minus,scaleR}) list \<Rightarrow> 'a list \<Rightarrow> error + 'a list" where
  "cfg_combine scale uncond cond =
     (case tensor_sub cond uncond of
        Inl e \<Rightarrow> Inl e
      | Inr difference \<Rightarrow> tensor_add uncond (smul scale difference))"

definition guided_update ::
  "('a::{plus,minus,scaleR}, 'm) environment \<Rightarrow> 'a transformer_model \<Rightarrow> 'a list \<Rightarrow> 'a list
     \<Rightarrow> ('a list \<Rightarrow> real \<Rightarrow> 'a list) option \<Rightarrow> real \<Rightarrow> real \<Rightarrow> real \<Rightarrow> 'a list
     \<Rightarrow> error + 'a list" where
  "guided_update env transformer pooled embeds inpaint_extension scale t_curr t_prev lat =
     (case chunk2 (forward transformer (lat @ lat)
                     (replicate (length (lat @ lat)) (t_curr * 1000)) embeds pooled) of
        [uncond, cond] \<Rightarrow>
          (case cfg_combine scale uncond cond of
             Inl e \<Rightarrow> Inl e
           | Inr guided \<Rightarrow>
               (case tensor_add (to_dtype env Float32 lat) (smul (t_prev - t_curr) guided) of
                  Inl e \<Rightarrow> Inl e
                | Inr stepped \<Rightarrow>
                    Inr (case inpaint_extension of
                           None \<Rightarrow> to_dtype env (dtype_of env lat) stepped
                         | Some merge \<Rightarrow> merge (to_dtype env (dtype_of env lat) stepped) t_prev)))
      | _ \<Rightarrow> Inl (ValueError ''not enough values to unpack''))"



section \<open>The guidance scale resolver\<close>

text \<open>
  Claim C6. For a step count \<open>n\<close> (a number that is not negative), a scalar guidance scale
  \<open>s\<close> resolves to the list of \<open>n\<close> copies of \<open>s\<close>; a list of exactly \<open>n\<close> scales is returned
  as it is; a list of any other length fails the assertion, and nothing is returned.
\<close>

theorem prepare_cfg_scale_resolves:
  "(self_cfg_scale self = CfgFloat s \<and> 0 \<le> n \<longrightarrow>
      prepare_cfg_scale self n = Inr (replicate (nat n) s) \<and>
      int (length (replicate (nat n) s)) = n \<and> set (replicate (nat n) s) \<subseteq> {s})
   \<and> (self_cfg_scale self = CfgList xs \<and> int (length xs) = n \<longrightarrow>
        prepare_cfg_scale self n = Inr xs)
   \<and> (self_cfg_scale self = CfgList xs \<and> int (length xs) \<noteq> n \<longrightarrow>
        prepare_cfg_scale self n = Inl AssertionError)"
  by (auto simp: prepare_cfg_scale_def)

text \<open>The three cases on the invocation of the examples, for three and four steps.\<close>

theorem prepare_cfg_scale_resolves_witness:
  "prepare_cfg_scale stub_invocation 3 = Inr [7 / 2, 7 / 2, 7 / 2]
   \<and> prepare_cfg_scale (stub_invocation\<lparr>self_cfg_scale := CfgList [1, 2, 3]\<rparr>) 3 = Inr [1, 2, 3]
   \<and> prepare_cfg_scale (stub_invocation\<lparr>self_cfg_scale := CfgList [1, 2, 3]\<rparr>) 4
       = Inl AssertionError"
proof -
  have scalar: "self_cfg_scale stub_invocation = CfgFloat (7 / 2) \<and> (0::int) \<le> 3"
    by (simp add: stub_invocation_def)
  have listed: "self_cfg_scale (stub_invocation\<lparr>self_cfg_scale := CfgList [1, 2, 3]\<rparr>)
                  = CfgList [1, 2, 3]"
    by simp
  from prepare_cfg_scale_resolves [of stub_invocation "7 / 2" 3 "[]"] scalar
  have first: "prepare_cfg_scale stub_invocation 3 = Inr [7 / 2, 7 / 2, 7 / 2]"
    by (simp add: eval_nat_numeral)
  from prepare_cfg_scale_resolves
         [of "stub_invocation\<lparr>self_cfg_scale := CfgList [1, 2, 3]\<rparr>" 0 3 "[1, 2, 3]"] listed
  have second: "prepare_cfg_scale (stub_invocation\<lparr>self_cfg_scale := CfgList [1, 2, 3]\<rparr>) 3
                  = Inr [1, 2, 3]"
    by simp
  from prepare_cfg_scale_resolves
         [of "stub_invocation\<lparr>self_cfg_scale := CfgList [1, 2, 3]\<rparr>" 0 4 "[1, 2, 3]"] listed
  have third: "prepare_cfg_scale (stub_invocation\<lparr>self_cfg_scale := CfgList [1, 2, 3]\<rparr>) 4
                  = Inl AssertionError"
    by simp
  from first second third show ?thesis by simp
qed

section \<open>The noise initializer\<close>

text \<open>
  Claim C7. \<^verbatim>\<open>_get_noise\<close> is a function of its arguments, and the tensor it casts is
  drawn on the CPU in half precision from a generator seeded with the given seed: one
  reference value, fixed by the shape and the seed, of which the result for every target
  device and precision is the cast.
\<close>

theorem get_noise_cast_of_reference:
  "get_noise env batch_size num_channels_latents h w dtype device sd =
     (if LATENT_SCALE_FACTOR env = 0 then Inl ZeroDivisionError
      else Inr (tensor_to env device dtype
                  (randn env
                     [batch_size, num_channels_latents,
                      h div LATENT_SCALE_FACTOR env, w div LATENT_SCALE_FACTOR env]
                     CPU Float16 (Generator CPU (Some sd)))))
   \<and> (\<exists>reference. \<forall>dtype' device'.
          get_noise env batch_size num_channels_latents h w dtype' device' sd =
            map_sum id (tensor_to env device' dtype') reference)"
proof
  show first: "get_noise env batch_size num_channels_latents h w dtype device sd =
     (if LATENT_SCALE_FACTOR env = 0 then Inl ZeroDivisionError
      else Inr (tensor_to env device dtype
                  (randn env
                     [batch_size, num_channels_latents,
                      h div LATENT_SCALE_FACTOR env, w div LATENT_SCALE_FACTOR env]
                     CPU Float16 (Generator CPU (Some sd)))))"
    by (simp add: get_noise_def manual_seed_def)
  let ?reference =
    "if LATENT_SCALE_FACTOR env = 0 then Inl ZeroDivisionError
     else Inr (randn env
                 [batch_size, num_channels_latents,
                  h div LATENT_SCALE_FACTOR env, w div LATENT_SCALE_FACTOR env]
                 CPU Float16 (Generator CPU (Some sd)))"
  have "\<forall>dtype' device'.
          get_noise env batch_size num_channels_latents h w dtype' device' sd =
            map_sum id (tensor_to env device' dtype') ?reference"
    by (simp add: get_noise_def manual_seed_def)
  then show "\<exists>reference. \<forall>dtype' device'.
          get_noise env batch_size num_channels_latents h w dtype' device' sd =
            map_sum id (tensor_to env device' dtype') reference"
    by (rule exI)
qed

section \<open>Halves of a batch\<close>

lemma chunk2_append:
  assumes "length us = length cs"
  shows "chunk2 (us @ cs) = [us, cs]"
proof -
  have "(length us + length cs + 1) div 2 = length us"
    using assms by simp
  moreover have "length us + length cs \<noteq> 1"
    using assms by presburger
  ultimately show ?thesis
    by (simp add: chunk2_def Let_def)
qed

lemma broadcast2_same_length:
  "length xs = length ys \<Longrightarrow> broadcast2 f xs ys = Inr (map2 f xs ys)"
  by (simp add: broadcast2_def)

lemma map2_second:
  assumes "length us = length cs"
  shows "map2 (\<lambda>u c. c) us cs = cs"
  using assms by (induction us cs rule: list_induct2) simp_all

section \<open>The preparation of a run\<close>

lemma prepare_run_Inr:
  assumes "prepare_run env self = Inr p"
  shows "transformer_info p = load_by_attrs env"
    and "is_CogView4Transformer2DModel (load_by_attrs env)"
    and "\<exists>pos neg.
           load_text_conditioning env (self_positive_conditioning self)
             (choose_torch_dtype env) (choose_torch_device env) = Inr pos \<and>
           load_text_conditioning env (self_negative_conditioning self)
             (choose_torch_dtype env) (choose_torch_device env) = Inr neg \<and>
           prompt_embeds p = neg @ pos"
    and "\<exists>linear_ts. linspace env 1 0 (self_steps self + 1) = Inr linear_ts \<and>
           timesteps p = clip_timestep_schedule_fractional env linear_ts
                           (self_denoising_start self) (self_denoising_end self)"
    and "total_steps p = int (length (timesteps p)) - 1"
    and "prepare_cfg_scale self (total_steps p) = Inr (cfg_scale p)"
    and "init_latents p =
           map_option (\<lambda>name. tensor_to env (choose_torch_device env) (choose_torch_dtype env)
                                (tensors_load env name)) (self_latents self)"
    and "\<exists>num_channels_latents. in_channels (load_by_attrs env) = Some num_channels_latents \<and>
           get_noise env 1 num_channels_latents (self_height self) (self_width self)
             (choose_torch_dtype env) (choose_torch_device env) (self_seed self) = Inr (noise p)"
  using assms
  by (auto simp: prepare_run_def Let_def split: sum.splits if_splits option.splits)

section \<open>Runs of the concrete environment\<close>

lemmas stub_defs = stub_env_def stub_invocation_def stub_transformer_def clip_between_def
  exact_linspace_point_def

lemmas prepare_defs = prepare_run_def load_text_conditioning_def prepare_timesteps_def
  linspace_def py_int_def init_scheduler_def calculate_timestep_shift_def prepare_cfg_scale_def
  get_noise_def manual_seed_def

lemmas loop_defs = prepare_input_latents_def double_1e_minus_5_def timestep_pairs_def
  enumerate_eq_zip
  denoise_step_def do_classifier_free_guidance_def apply_cfg_def chunk2_def tensor_add_def
  tensor_sub_def broadcast2_def smul_def py_int_def Let_def

lemma stub_prepare_one_step:
  "prepare_run stub_env stub_invocation =
     Inr \<lparr> transformer_info = stub_transformer, prompt_embeds = [0, 1],
           scheduler_timesteps = [1000], timesteps = [1, 0], total_steps = 1,
           cfg_scale = [7 / 2], init_latents = None, noise = [42] \<rparr>"
  by (simp add: prepare_defs stub_defs upt_rec)

lemma stub_prepare_four_steps:
  "prepare_run stub_env (stub_invocation\<lparr>self_steps := 4\<rparr>) =
     Inr \<lparr> transformer_info = stub_transformer, prompt_embeds = [0, 1],
           scheduler_timesteps = [1000, 667, 334, 1],
           timesteps = [1, 3 / 4, 1 / 2, 1 / 4, 0], total_steps = 4,
           cfg_scale = [7 / 2, 7 / 2, 7 / 2, 7 / 2], init_latents = None, noise = [42] \<rparr>"
  by (simp add: prepare_defs stub_defs upt_rec eval_nat_numeral)

lemma stub_prepare_renoise:
  "prepare_run stub_env
     (stub_invocation\<lparr>self_latents := Some ''stored'', self_denoising_start := 1 / 2,
                       self_denoising_end := 1 / 2\<rparr>) =
     Inr \<lparr> transformer_info = stub_transformer, prompt_embeds = [0, 1],
           scheduler_timesteps = [1000], timesteps = [1 / 2], total_steps = 0,
           cfg_scale = [], init_latents = Some [10], noise = [42] \<rparr>"
  by (simp add: prepare_defs stub_defs upt_rec)

lemma stub_prepare_tiny_start:
  "prepare_run stub_env
     (stub_invocation\<lparr>self_denoising_start := 1 / 1048576,
                       self_denoising_end := 1 / 1048576\<rparr>) =
     Inr \<lparr> transformer_info = stub_transformer, prompt_embeds = [0, 1],
           scheduler_timesteps = [1000], timesteps = [1048575 / 1048576], total_steps = 0,
           cfg_scale = [], init_latents = None, noise = [42] \<rparr>"
  by (simp add: prepare_defs stub_defs upt_rec)

lemma stub_prepare_half_start:
  "prepare_run stub_env (stub_invocation\<lparr>self_denoising_start := 1 / 2\<rparr>) =
     Inr \<lparr> transformer_info = stub_transformer, prompt_embeds = [0, 1],
           scheduler_timesteps = [1000], timesteps = [1 / 2, 0], total_steps = 1,
           cfg_scale = [7 / 2], init_latents = None, noise = [42] \<rparr>"
  by (simp add: prepare_defs stub_defs upt_rec)

text \<open>
  Claim C4. With \<^verbatim>\<open>steps = 1\<close>, no mask and no initial latents the schedule is \<open>[1, 0]\<close> and
  the loop is entered: the snapshot of step 0 is emitted, and the first pass through the
  body raises \<^verbatim>\<open>NameError\<close> where the call of the transformer reads
  \<^verbatim>\<open>pooled_prompt_embeds\<close>. No prediction is computed and no latents are returned, where
  the claim has \<open>noise + (0 - t\<^sub>0) * pred\<close>.
\<close>

theorem run_diffusion_one_step_NameError:
  "run_diffusion stub_env stub_invocation =
     ([StepCallback (PipelineIntermediateState 0 1 1 1 [42])],
      Inl (NameError ''pooled_prompt_embeds''))"
  unfolding run_diffusion_def run_diffusion_with_def stub_prepare_one_step
  by (simp add: loop_defs stub_defs)

text \<open>
  What the same run does when the name is bound (here to the tensor \<open>[0]\<close>): one call of
  the transformer on the doubled noise, and the single Euler step
  \<open>42 + (0 - 1) * 2 = 40\<close> for the constant prediction 2.
\<close>

lemma run_diffusion_with_binding_one_step:
  "run_diffusion_with (Some [0]) stub_env stub_invocation =
     ([StepCallback (PipelineIntermediateState 0 1 1 1 [42]),
       TransformerCall [42, 42] [1000, 1000] [0, 1] [0],
       StepCallback (PipelineIntermediateState 1 1 1 1 [40])],
      Inr [40])"
  unfolding run_diffusion_with_def stub_prepare_one_step
  by (simp add: loop_defs stub_defs)

text \<open>
  Claim C1. For four steps, with a scheduler that resolves to the timesteps it is given,
  \<^verbatim>\<open>_prepare_timesteps\<close> yields \<open>[1000, 667, 334, 1]\<close>, and the variable \<^verbatim>\<open>timesteps\<close> that
  the loop iterates over holds \<open>[1, 3/4, 1/2, 1/4, 0]\<close>: the assignment from
  \<^verbatim>\<open>torch.linspace(1, 0, steps + 1)\<close> and the clipping have replaced the scheduler's list
  before anything read it.
\<close>

theorem loop_schedule_is_not_scheduler_schedule:
  "map_sum id (\<lambda>p. (scheduler_timesteps p, timesteps p))
     (prepare_run stub_env (stub_invocation\<lparr>self_steps := 4\<rparr>)) =
     Inr ([1000, 667, 334, 1], [1, 3 / 4, 1 / 2, 1 / 4, 0])"
  by (simp add: stub_prepare_four_steps)

section \<open>The schedule builder\<close>










section \<open>The denoising loop\<close>

lemma snapshots_append: "snapshots (evs @ evs') = snapshots evs @ snapshots evs'"
  by (induction evs rule: snapshots.induct) simp_all

lemma denoise_step_unbound:
  "denoise_step env transformer None do_cfg embeds scales inpaint_extension n i t_curr t_prev lat
     = ([], Inl (NameError ''pooled_prompt_embeds''))"
  by (simp add: denoise_step_def Let_def)

lemma denoise_step_cases:
  assumes "denoise_step env transformer pooled do_cfg embeds scales inpaint_extension n
             i t_curr t_prev lat = (evs, r)"
  shows "(\<exists>e. r = Inl e \<and> evs = [])
       \<or> (\<exists>e pp. r = Inl e \<and> pooled = Some pp \<and>
             evs = [TransformerCall (if do_cfg then lat @ lat else lat)
                      (replicate (length (if do_cfg then lat @ lat else lat)) (t_curr * 1000))
                      embeds pp])
       \<or> (\<exists>lat' pp. r = Inr lat' \<and> pooled = Some pp \<and>
             evs = [TransformerCall (if do_cfg then lat @ lat else lat)
                      (replicate (length (if do_cfg then lat @ lat else lat)) (t_curr * 1000))
                      embeds pp,
                    StepCallback (PipelineIntermediateState (int i + 1) 1 n (py_int t_curr) lat')])"
proof (cases pooled)
  case None
  with assms have "evs = []" "r = Inl (NameError ''pooled_prompt_embeds'')"
    by (simp_all add: denoise_step_unbound)
  then show ?thesis by simp
next
  case (Some pp)
  let ?input = "if do_cfg then lat @ lat else lat"
  let ?timestep = "replicate (length ?input) (t_curr * 1000)"
  let ?call = "TransformerCall ?input ?timestep embeds pp"
  show ?thesis
  proof (cases "apply_cfg do_cfg scales i (forward transformer ?input ?timestep embeds pp)")
    case (Inl e)
    with Some have "denoise_step env transformer pooled do_cfg embeds scales inpaint_extension n
                      i t_curr t_prev lat = ([?call], Inl e)"
      by (simp add: denoise_step_def Let_def)
    with assms have "evs = [?call]" "r = Inl e"
      by simp_all
    with Some show ?thesis by blast
  next
    case guided: (Inr noise_pred)
    show ?thesis
    proof (cases "tensor_add (to_dtype env Float32 lat) (smul (t_prev - t_curr) noise_pred)")
      case (Inl e)
      with Some guided
      have "denoise_step env transformer pooled do_cfg embeds scales inpaint_extension n
              i t_curr t_prev lat = ([?call], Inl e)"
        by (simp add: denoise_step_def Let_def)
      with assms have "evs = [?call]" "r = Inl e"
        by simp_all
      with Some show ?thesis by blast
    next
      case (Inr stepped)
      let ?merged = "case inpaint_extension of
                       None \<Rightarrow> to_dtype env (dtype_of env lat) stepped
                     | Some merge \<Rightarrow> merge (to_dtype env (dtype_of env lat) stepped) t_prev"
      from Some guided Inr
      have "denoise_step env transformer pooled do_cfg embeds scales inpaint_extension n
              i t_curr t_prev lat =
              ([?call,
                StepCallback (PipelineIntermediateState (int i + 1) 1 n (py_int t_curr) ?merged)],
               Inr ?merged)"
        by (simp add: denoise_step_def Let_def)
      with assms
      have "evs = [?call, StepCallback (PipelineIntermediateState (int i + 1) 1 n
                            (py_int t_curr) ?merged)]" "r = Inr ?merged"
        by simp_all
      with Some show ?thesis by blast
    qed
  qed
qed

lemma denoise_loop_snapshots:
  assumes "denoise_loop env transformer pooled do_cfg embeds scales inpaint_extension n
             (List.enumerate k pairs) lat = (evs, r)"
  shows "map state_step (snapshots evs) = map int [Suc k..<Suc k + length (snapshots evs)]
       \<and> length (snapshots evs) \<le> length pairs
       \<and> (\<forall>lat'. r = Inr lat' \<longrightarrow> length (snapshots evs) = length pairs)
       \<and> (\<forall>st \<in> set (snapshots evs). state_total_steps st = n)"
  using assms
proof (induction pairs arbitrary: k lat evs r)
  case Nil
  then show ?case by simp
next
  case (Cons pair pairs)
  obtain t_curr t_prev where pair: "pair = (t_curr, t_prev)"
    by (cases pair)
  obtain evs1 r1 where step:
    "denoise_step env transformer pooled do_cfg embeds scales inpaint_extension n
       k t_curr t_prev lat = (evs1, r1)"
    by (cases "denoise_step env transformer pooled do_cfg embeds scales inpaint_extension n
                 k t_curr t_prev lat")
  show ?case
  proof (cases r1)
    case (Inl e)
    with Cons.prems pair step have "evs = evs1" "r = Inl e"
      by simp_all
    moreover from denoise_step_cases [OF step] Inl have "snapshots evs1 = []"
      by auto
    ultimately show ?thesis by simp
  next
    case (Inr lat1)
    obtain evs2 r2 where rest:
      "denoise_loop env transformer pooled do_cfg embeds scales inpaint_extension n
         (List.enumerate (Suc k) pairs) lat1 = (evs2, r2)"
      by (cases "denoise_loop env transformer pooled do_cfg embeds scales inpaint_extension n
                   (List.enumerate (Suc k) pairs) lat1")
    with Cons.prems pair step Inr have whole: "evs = evs1 @ evs2" "r = r2"
      by simp_all
    from denoise_step_cases [OF step] Inr
    have first: "snapshots evs1 = [PipelineIntermediateState (int k + 1) 1 n (py_int t_curr) lat1]"
      by auto
    note ih = Cons.IH [OF rest]
    let ?m = "length (snapshots evs2)"
    have "map state_step (snapshots evs) = (int k + 1) # map int [Suc (Suc k)..<Suc (Suc k) + ?m]"
      using whole first ih by (simp add: snapshots_append)
    also have "\<dots> = map int [Suc k..<Suc k + Suc ?m]"
      by (simp add: upt_conv_Cons del: upt_Suc)
    finally have steps: "map state_step (snapshots evs) = map int [Suc k..<Suc k + Suc ?m]" .
    have len: "length (snapshots evs) = Suc ?m"
      using whole first by (simp add: snapshots_append)
    have bound: "length (snapshots evs) \<le> length (pair # pairs)"
      using len ih by simp
    have returned: "\<forall>lat'. r = Inr lat' \<longrightarrow> length (snapshots evs) = length (pair # pairs)"
      using len ih whole by simp
    have totals: "\<forall>st \<in> set (snapshots evs). state_total_steps st = n"
      using whole first ih by (simp add: snapshots_append)
    show ?thesis
      using steps len bound returned totals by simp
  qed
qed

lemma denoise_loop_calls_doubled:
  assumes "denoise_loop env transformer pooled True embeds scales inpaint_extension n
             pairs lat = (evs, r)"
  shows "calls_doubled embeds (Some lat) evs"
  using assms
proof (induction pairs arbitrary: lat evs r)
  case Nil
  then show ?case by simp
next
  case (Cons triple pairs)
  obtain i t_curr t_prev where triple: "triple = (i, t_curr, t_prev)"
    by (cases triple)
  obtain evs1 r1 where step:
    "denoise_step env transformer pooled True embeds scales inpaint_extension n
       i t_curr t_prev lat = (evs1, r1)"
    by (cases "denoise_step env transformer pooled True embeds scales inpaint_extension n
                 i t_curr t_prev lat")
  show ?case
  proof (cases r1)
    case (Inl e)
    with Cons.prems triple step have "evs = evs1"
      by simp
    with denoise_step_cases [OF step] Inl show ?thesis
      by auto
  next
    case (Inr lat1)
    obtain evs2 r2 where rest:
      "denoise_loop env transformer pooled True embeds scales inpaint_extension n
         pairs lat1 = (evs2, r2)"
      by (cases "denoise_loop env transformer pooled True embeds scales inpaint_extension n
                   pairs lat1")
    with Cons.prems triple step Inr have whole: "evs = evs1 @ evs2"
      by simp
    from Cons.IH [OF rest] have "calls_doubled embeds (Some lat1) evs2" .
    with denoise_step_cases [OF step] Inr whole show ?thesis
      by auto
  qed
qed

lemma length_timestep_pairs: "length (timestep_pairs ts) = length ts - 1"
  by (simp add: timestep_pairs_def)

section \<open>Classifier-free guidance at every step\<close>

lemma denoise_step_guided:
  assumes "denoise_step env tr (Some pp) True embeds scales ext n i tc tp lat = (evs, Inr lat')"
  shows "i < length scales"
    and "guided_update env tr pp embeds ext (scales ! i) tc tp lat = Inr lat'"
    and "snapshots evs = [PipelineIntermediateState (int i + 1) 1 n (py_int tc) lat']"
  using assms
  by (auto simp: denoise_step_def apply_cfg_def guided_update_def cfg_combine_def Let_def
           split: list.splits sum.splits if_splits)

lemma denoise_step_failed:
  assumes "denoise_step env tr pooled do_cfg embeds scales ext n i tc tp lat = (evs, Inl e)"
  shows "snapshots evs = []"
  using denoise_step_cases [OF assms] by auto

lemma denoise_loop_guided:
  assumes "denoise_loop env tr (Some pp) True embeds scales ext n triples lat = (evs, r)"
  shows "length (snapshots evs) \<le> length triples
       \<and> (\<forall>j < length (snapshots evs).
             fst (triples ! j) < length scales \<and>
             guided_update env tr pp embeds ext (scales ! fst (triples ! j))
               (fst (snd (triples ! j))) (snd (snd (triples ! j)))
               ((lat # map state_latents (snapshots evs)) ! j) =
               Inr (state_latents (snapshots evs ! j)))
       \<and> (\<forall>out. r = Inr out \<longrightarrow>
             length (snapshots evs) = length triples \<and>
             out = last (lat # map state_latents (snapshots evs)))"
  using assms
proof (induction triples arbitrary: lat evs r)
  case Nil
  then show ?case by auto
next
  case (Cons triple triples)
  obtain i tc tp where triple: "triple = (i, tc, tp)"
    by (cases triple)
  obtain evs1 r1 where step:
    "denoise_step env tr (Some pp) True embeds scales ext n i tc tp lat = (evs1, r1)"
    by (cases "denoise_step env tr (Some pp) True embeds scales ext n i tc tp lat")
  show ?case
  proof (cases r1)
    case (Inl e)
    with Cons.prems triple step have "evs = evs1" "r = Inl e"
      by simp_all
    moreover from step Inl have "snapshots evs1 = []"
      by (simp add: denoise_step_failed)
    ultimately show ?thesis by simp
  next
    case (Inr lat1)
    obtain evs2 r2 where rest:
      "denoise_loop env tr (Some pp) True embeds scales ext n triples lat1 = (evs2, r2)"
      by (cases "denoise_loop env tr (Some pp) True embeds scales ext n triples lat1")
    with Cons.prems triple step Inr have whole: "evs = evs1 @ evs2" "r = r2"
      by simp_all
    from step Inr have this_step:
      "denoise_step env tr (Some pp) True embeds scales ext n i tc tp lat = (evs1, Inr lat1)"
      by simp
    note first = denoise_step_guided [OF this_step]
    note ih = Cons.IH [OF rest]
    let ?s1 = "PipelineIntermediateState (int i + 1) 1 n (py_int tc) lat1"
    have snaps: "snapshots evs = ?s1 # snapshots evs2"
      using whole first(3) by (simp add: snapshots_append)
    have len: "length (snapshots evs) \<le> length (triple # triples)"
      using snaps ih by simp
    have each: "fst ((triple # triples) ! j) < length scales \<and>
             guided_update env tr pp embeds ext (scales ! fst ((triple # triples) ! j))
               (fst (snd ((triple # triples) ! j))) (snd (snd ((triple # triples) ! j)))
               ((lat # map state_latents (snapshots evs)) ! j) =
               Inr (state_latents (snapshots evs ! j))"
      if "j < length (snapshots evs)" for j
    proof (cases j)
      case 0
      with triple first snaps show ?thesis by simp
    next
      case (Suc j')
      with that snaps have "j' < length (snapshots evs2)"
        by simp
      with ih have "fst (triples ! j') < length scales \<and>
             guided_update env tr pp embeds ext (scales ! fst (triples ! j'))
               (fst (snd (triples ! j'))) (snd (snd (triples ! j')))
               ((lat1 # map state_latents (snapshots evs2)) ! j') =
               Inr (state_latents (snapshots evs2 ! j'))"
        by blast
      with Suc snaps show ?thesis by simp
    qed
    have returned: "length (snapshots evs) = length (triple # triples) \<and>
             out = last (lat # map state_latents (snapshots evs))" if "r = Inr out" for out
    proof -
      from that whole ih have "length (snapshots evs2) = length triples"
        and "out = last (lat1 # map state_latents (snapshots evs2))"
        by simp_all
      with snaps show ?thesis by simp
    qed
    from len each returned show ?thesis
      by blast
  qed
qed

lemma nth_timestep_pairs:
  assumes "Suc k < length ts"
  shows "timestep_pairs ts ! k = (k, ts ! k, ts ! Suc k)"
  using assms
  by (simp add: timestep_pairs_def nth_enumerate_eq nth_butlast nth_tl)

lemma cfg_combine_halves:
  fixes us cs :: "('b::real_vector) list"
  assumes "length us = length cs"
  shows "cfg_combine s us cs = Inr (map2 (\<lambda>u c. u + s *\<^sub>R (c - u)) us cs)"
proof -
  have sub: "tensor_sub cs us = Inr (map2 (-) cs us)"
    using assms by (simp add: tensor_sub_def broadcast2_same_length)
  have add: "tensor_add us (smul s (map2 (-) cs us)) =
               Inr (map2 (+) us (smul s (map2 (-) cs us)))"
    using assms by (simp add: tensor_add_def smul_def broadcast2_same_length)
  have shape: "map2 (+) us (smul s (map2 (-) cs us)) =
                 map2 (\<lambda>u c. u + s *\<^sub>R (c - u)) us cs"
    using assms by (induction us cs rule: list_induct2) (simp_all add: smul_def)
  show ?thesis
    by (simp add: cfg_combine_def sub add shape)
qed

text \<open>
  Claim C3, as amended. In a run of the loop with guidance enabled, whatever the arithmetic
  of the samples: the snapshot of step \<open>k + 1\<close> holds the latents that the step computes
  from those of the snapshot before it (the input latents for \<open>k = 0\<close>) by splitting the
  prediction into its two halves and combining them as \<open>uncond + scale[k] * (cond - uncond)\<close>
  with the scale of that very step, between the timesteps \<open>k\<close> and \<open>k + 1\<close> of the schedule;
  a loop that returns has done so for every step and returns the latents of its last
  snapshot. On a prediction of two halves of the same size the block under
  \<^verbatim>\<open># Apply CFG.\<close> is this combination. In exact arithmetic the combination is
  \<open>uncond + scale * (cond - uncond)\<close> sample by sample, and the conditional half for the
  scale 1.
\<close>

theorem guidance_combines_at_every_step:
  fixes lat :: "('a::{plus,minus,scaleR}) list"
  assumes "denoise_loop env tr (Some pp) do_classifier_free_guidance embeds scales ext n
             (timestep_pairs ts) lat = (evs, r)"
  shows "(\<forall>k < length (snapshots evs).
            Suc k < length ts \<and> k < length scales \<and>
            guided_update env tr pp embeds ext (scales ! k) (ts ! k) (ts ! Suc k)
              ((lat # map state_latents (snapshots evs)) ! k) =
              Inr (state_latents (snapshots evs ! k)))
       \<and> (\<forall>out. r = Inr out \<longrightarrow>
             length (snapshots evs) = length ts - 1 \<and>
             out = last (lat # map state_latents (snapshots evs)))
       \<and> (\<forall>us cs i.
             length us = length cs \<and> i < length scales \<longrightarrow>
               apply_cfg do_classifier_free_guidance scales i (us @ cs) =
                 cfg_combine (scales ! i) us (cs :: 'a list))
       \<and> (\<forall>(us :: ('b::real_vector) list) cs s.
             length us = length cs \<longrightarrow>
               cfg_combine s us cs = Inr (map2 (\<lambda>u c. u + s *\<^sub>R (c - u)) us cs) \<and>
               cfg_combine 1 us cs = Inr cs)"
proof -
  from assms have loop:
    "denoise_loop env tr (Some pp) True embeds scales ext n (timestep_pairs ts) lat = (evs, r)"
    by (simp add: do_classifier_free_guidance_def)
  note guided = denoise_loop_guided [OF loop]
  have each: "Suc k < length ts \<and> k < length scales \<and>
            guided_update env tr pp embeds ext (scales ! k) (ts ! k) (ts ! Suc k)
              ((lat # map state_latents (snapshots evs)) ! k) =
              Inr (state_latents (snapshots evs ! k))" if "k < length (snapshots evs)" for k
  proof -
    from that guided have "k < length (timestep_pairs ts)"
      by simp
    then have k: "Suc k < length ts"
      by (simp add: length_timestep_pairs)
    from guided that
    have "fst (timestep_pairs ts ! k) < length scales \<and>
             guided_update env tr pp embeds ext (scales ! fst (timestep_pairs ts ! k))
               (fst (snd (timestep_pairs ts ! k))) (snd (snd (timestep_pairs ts ! k)))
               ((lat # map state_latents (snapshots evs)) ! k) =
               Inr (state_latents (snapshots evs ! k))"
      by blast
    with k show ?thesis
      by (simp add: nth_timestep_pairs)
  qed
  have returned: "\<forall>out. r = Inr out \<longrightarrow>
             length (snapshots evs) = length ts - 1 \<and>
             out = last (lat # map state_latents (snapshots evs))"
    using guided by (simp add: length_timestep_pairs)
  have exact: "cfg_combine s us cs = Inr (map2 (\<lambda>u c. u + s *\<^sub>R (c - u)) us cs) \<and>
               cfg_combine 1 us cs = Inr cs"
    if "length us = length cs" for us cs :: "('b::real_vector) list" and s
    using that by (simp add: cfg_combine_halves map2_second)
  have block: "apply_cfg do_classifier_free_guidance scales i (us @ cs) =
                 cfg_combine (scales ! i) us cs"
    if "length us = length cs" and "i < length scales" for us cs :: "'a list" and i
    using that
    by (simp add: apply_cfg_def do_classifier_free_guidance_def chunk2_append cfg_combine_def)
  from each returned block exact show ?thesis
    by blast
qed

text \<open>
  Two steps over the schedule \<open>[1, 1/2, 0]\<close> with the scales 2 and 1, on a prediction whose
  halves are 0 and 1: the combined predictions are 2 and 1, the latents go from 42 to 41
  and to 40.5.
\<close>

lemma two_guided_steps:
  "denoise_loop stub_env embeds_transformer (Some [0]) do_classifier_free_guidance [0, 1]
     [2, 1] None 2 (timestep_pairs [1, 1 / 2, 0]) [42] =
     ([TransformerCall [42, 42] [1000, 1000] [0, 1] [0],
       StepCallback (PipelineIntermediateState 1 1 2 1 [41]),
       TransformerCall [41, 41] [500, 500] [0, 1] [0],
       StepCallback (PipelineIntermediateState 2 1 2 0 [81 / 2])],
      Inr [81 / 2])"
  by (simp add: loop_defs stub_defs embeds_transformer_def)

theorem guidance_combines_at_every_step_witness:
  "denoise_loop stub_env embeds_transformer (Some [0]) do_classifier_free_guidance [0, 1]
     [2, 1] None 2 (timestep_pairs [1, 1 / 2, 0]) [42] =
     ([TransformerCall [42, 42] [1000, 1000] [0, 1] [0],
       StepCallback (PipelineIntermediateState 1 1 2 1 [41]),
       TransformerCall [41, 41] [500, 500] [0, 1] [0],
       StepCallback (PipelineIntermediateState 2 1 2 0 [81 / 2])],
      Inr [81 / 2])
   \<and> guided_update stub_env embeds_transformer [0] [0, 1] None 2 1 (1 / 2) [42] = Inr [41]
   \<and> guided_update stub_env embeds_transformer [0] [0, 1] None 1 (1 / 2) 0 [41] = Inr [81 / 2]
   \<and> cfg_combine 2 [0] [1::real] = Inr [2]
   \<and> cfg_combine 1 [0] [1::real] = Inr [1]"
proof -
  note at_stub = guidance_combines_at_every_step [OF two_guided_steps, where ?'b = real]
  from at_stub
  have steps: "guided_update stub_env embeds_transformer [0] [0, 1] None 2 1 (1 / 2) [42]
                 = Inr [41]"
    "guided_update stub_env embeds_transformer [0] [0, 1] None 1 (1 / 2) 0 [41] = Inr [81 / 2]"
    by (simp_all add: All_less_Suc)
  from at_stub have "length [0::real] = length [1::real] \<longrightarrow>
                   cfg_combine 2 [0] [1::real] = Inr (map2 (\<lambda>u c. u + 2 *\<^sub>R (c - u)) [0] [1]) \<and>
                   cfg_combine 1 [0] [1::real] = Inr [1]"
    by blast
  then have halves: "cfg_combine 2 [0] [1::real] = Inr [2]" "cfg_combine 1 [0] [1::real] = Inr [1]"
    by simp_all
  from two_guided_steps steps halves show ?thesis
    by simp
qed

subsection \<open>The combination in single precision\<close>

lemma round_half_even_of_int [simp]: "round_half_even (real_of_int k) = k"
  by (simp add: round_half_even_def)

lemma float32_round_zero: "float32_round 0 = 0"
  by (simp add: float32_round_def)

lemma float32_round_one: "float32_round 1 = 1"
  by (simp add: float32_round_def round_half_even_def)

lemma float32_round_minus_one: "float32_round (- 1) = - 1"
  by (simp add: float32_round_def round_half_even_def)

lemma log_below_one: "\<lfloor>log 2 (1 - 1 / 2 ^ 26)\<rfloor> = - 1"
proof -
  have "log 2 (1 - 1 / 2 ^ 26) < 0"
    by simp
  moreover have "- 1 \<le> log 2 (1 - 1 / 2 ^ 26)"
  proof -
    have "(2::real) powr (- 1) \<le> 1 - 1 / 2 ^ 26"
      by (simp add: powr_minus)
    then show ?thesis
      by (subst le_log_iff) simp_all
  qed
  ultimately show ?thesis
    by (simp add: floor_eq_iff)
qed

lemma float32_round_near_minus_one: "float32_round (1 / 2 ^ 26 - 1) = - 1"
proof -
  have abs: "\<bar>1 / 2 ^ 26 - 1 :: real\<bar> = 1 - 1 / 2 ^ 26"
    by simp
  have q: "\<lfloor>(1 / 2 ^ 26 - 1) * 2 ^ 24 :: real\<rfloor> = - (2 ^ 24)"
    by (simp add: floor_eq_iff)
  show ?thesis
    unfolding float32_round_def abs log_below_one
    by (simp add: round_half_even_def Let_def q)
qed

lemma float32_sub_rounds: "F32 (1 / 2 ^ 26) - F32 1 = F32 (- 1)"
  unfolding minus_float32_def float32.sel float32_round_near_minus_one ..

lemma float32_scale_one: "1 *\<^sub>R F32 (- 1) = F32 (- 1)"
  by (simp add: scaleR_float32_def float32_round_one float32_round_minus_one)

lemma float32_add_cancels: "F32 1 + F32 (- 1) = F32 0"
  by (simp add: plus_float32_def float32_round_zero)

text \<open>
  Claim C3, as stated, fails in single precision, where a scale of 1.0 does not yield
  exactly the conditional prediction. For the halves 1 and \<open>2\<^sup>-\<^sup>2\<^sup>6\<close> the difference
  \<open>2\<^sup>-\<^sup>2\<^sup>6 - 1\<close> is rounded to \<open>-1\<close>, and \<open>1 + 1.0 * (-1)\<close> is 0, not \<open>2\<^sup>-\<^sup>2\<^sup>6\<close>.
\<close>

theorem guidance_scale_one_is_rounded:
  "apply_cfg do_classifier_free_guidance [1] 0 [F32 1, F32 (1 / 2 ^ 26)] = Inr [F32 0]
   \<and> F32 0 \<noteq> F32 (1 / 2 ^ 26)"
  by (simp add: apply_cfg_def do_classifier_free_guidance_def chunk2_def tensor_sub_def
        tensor_add_def smul_def broadcast2_def float32_sub_rounds float32_scale_one
        float32_add_cancels del: power_numeral)

section \<open>Runs\<close>


lemma run_diffusion_with_events:
  assumes "prepare_run env self = Inr p"
    and "run_diffusion_with pooled env self = (evs, r)"
  shows "evs = [] \<and> (length (timesteps p) \<le> 1 \<or> (\<exists>e. r = Inl e))
       \<or> (\<exists>lat rest r'.
             prepare_input_latents self (init_latents p) (timesteps p) (noise p) = Inr lat \<and>
             1 < length (timesteps p) \<and>
             evs = StepCallback (PipelineIntermediateState 0 1 (total_steps p)
                                   (py_int (hd (timesteps p))) lat) # rest \<and>
             (rest = [] \<and> r = Inl AssertionError \<or>
              denoise_loop env (transformer_info p) pooled do_classifier_free_guidance
                (prompt_embeds p) (cfg_scale p) r' (total_steps p)
                (timestep_pairs (timesteps p)) lat = (rest, r)))"
proof (cases "prepare_input_latents self (init_latents p) (timesteps p) (noise p)")
  case (Inl e)
  with assms have "evs = []" "r = Inl e"
    by (simp_all add: run_diffusion_with_def)
  then show ?thesis by simp
next
  case (Inr lat)
  show ?thesis
  proof (cases "length (timesteps p) \<le> 1")
    case True
    with assms Inr have "evs = []"
      by (simp add: run_diffusion_with_def)
    with True show ?thesis by simp
  next
    case False
    let ?ext = "case prep_inpaint_mask env lat of
                  None \<Rightarrow> Inr None
                | Some inpaint_mask \<Rightarrow>
                    (case init_latents p of
                       None \<Rightarrow> Inl AssertionError
                     | Some init_lat \<Rightarrow>
                         Inr (Some (merge_intermediate_latents_with_init_latents env
                                      init_lat inpaint_mask (noise p))))"
    show ?thesis
    proof (cases ?ext)
      case (Inl e)
      with assms Inr False have "evs = []" "r = Inl e"
        by (simp_all add: run_diffusion_with_def)
      then show ?thesis by simp
    next
      case ext: (Inr inpaint_extension)
      show ?thesis
      proof (cases "is_SD3Transformer2DModel (transformer_info p)")
        case False
        with assms Inr \<open>\<not> length (timesteps p) \<le> 1\<close> ext
        have "evs = [StepCallback (PipelineIntermediateState 0 1 (total_steps p)
                                    (py_int (hd (timesteps p))) lat)]" "r = Inl AssertionError"
          by (simp_all add: run_diffusion_with_def Let_def)
        with Inr \<open>\<not> length (timesteps p) \<le> 1\<close> show ?thesis
          by simp
      next
        case True
        obtain rest r2 where loop:
          "denoise_loop env (transformer_info p) pooled do_classifier_free_guidance
             (prompt_embeds p) (cfg_scale p) inpaint_extension (total_steps p)
             (timestep_pairs (timesteps p)) lat = (rest, r2)"
          by (cases "denoise_loop env (transformer_info p) pooled do_classifier_free_guidance
             (prompt_embeds p) (cfg_scale p) inpaint_extension (total_steps p)
             (timestep_pairs (timesteps p)) lat")
        with assms Inr \<open>\<not> length (timesteps p) \<le> 1\<close> ext True
        have "evs = StepCallback (PipelineIntermediateState 0 1 (total_steps p)
                                   (py_int (hd (timesteps p))) lat) # rest" "r = r2"
          by (simp_all add: run_diffusion_with_def Let_def)
        with loop Inr \<open>\<not> length (timesteps p) \<le> 1\<close> show ?thesis
          by auto
      qed
    qed
  qed
qed

lemma run_diffusion_with_first_snapshot:
  assumes "prepare_run env self = Inr p"
    and "prepare_input_latents self (init_latents p) (timesteps p) (noise p) = Inr lat"
    and "1 < length (timesteps p)"
    and "prep_inpaint_mask env lat = None \<or> init_latents p \<noteq> None"
  shows "\<exists>rest. fst (run_diffusion_with pooled env self) =
           StepCallback (PipelineIntermediateState 0 1 (total_steps p)
                           (py_int (hd (timesteps p))) lat) # rest"
  using assms
  by (auto simp: run_diffusion_with_def Let_def split: option.splits prod.splits)

subsection \<open>Progress snapshots\<close>

text \<open>
  Claim C10, as amended. After a successful preparation: a run whose schedule has at most
  one timestep emits nothing. A run whose schedule has more than one timestep, whose input
  latents are prepared and whose inpaint extension is built (no mask, or a mask with
  initial latents) emits the snapshot of step 0 first, before any pass through the loop;
  it carries the total step count, \<^verbatim>\<open>int(timesteps[0])\<close> and the input latents. The
  snapshots are numbered 0, 1, 2, ... in the order of their emission, so that one of them
  has the number 0, and all carry the total step count; and a run over more than one
  timestep that returns has emitted \<open>total_steps + 1\<close> of them. This holds whatever
  \<^verbatim>\<open>pooled_prompt_embeds\<close> is bound to, and when it is bound to nothing.
\<close>

theorem progress_snapshots:
  assumes "prepare_run env self = Inr p"
  shows "(length (timesteps p) \<le> 1 \<longrightarrow> fst (run_diffusion_with pooled env self) = [])
       \<and> (\<forall>lat. prepare_input_latents self (init_latents p) (timesteps p) (noise p) = Inr lat \<and>
                 1 < length (timesteps p) \<and>
                 (prep_inpaint_mask env lat = None \<or> init_latents p \<noteq> None) \<longrightarrow>
            (\<exists>rest. fst (run_diffusion_with pooled env self) =
                      StepCallback (PipelineIntermediateState 0 1 (total_steps p)
                                      (py_int (hd (timesteps p))) lat) # rest))
       \<and> (fst (run_diffusion_with pooled env self) \<noteq> [] \<longrightarrow>
            (\<exists>lat. prepare_input_latents self (init_latents p) (timesteps p) (noise p) = Inr lat \<and>
                   hd (fst (run_diffusion_with pooled env self)) =
                     StepCallback (PipelineIntermediateState 0 1 (total_steps p)
                                     (py_int (hd (timesteps p))) lat)))
       \<and> map state_step (snapshots (fst (run_diffusion_with pooled env self))) =
            map int [0..<length (snapshots (fst (run_diffusion_with pooled env self)))]
       \<and> (\<forall>st \<in> set (snapshots (fst (run_diffusion_with pooled env self))).
             state_total_steps st = total_steps p)
       \<and> (\<forall>lat. snd (run_diffusion_with pooled env self) = Inr lat \<and> 1 < length (timesteps p) \<longrightarrow>
             int (length (snapshots (fst (run_diffusion_with pooled env self)))) =
               total_steps p + 1)"
proof -
  obtain evs r where run: "run_diffusion_with pooled env self = (evs, r)"
    by (cases "run_diffusion_with pooled env self")
  note total = prepare_run_Inr(5) [OF assms]
  have emitted: "\<forall>lat. prepare_input_latents self (init_latents p) (timesteps p) (noise p) = Inr lat \<and>
                 1 < length (timesteps p) \<and>
                 (prep_inpaint_mask env lat = None \<or> init_latents p \<noteq> None) \<longrightarrow>
            (\<exists>rest. fst (run_diffusion_with pooled env self) =
                      StepCallback (PipelineIntermediateState 0 1 (total_steps p)
                                      (py_int (hd (timesteps p))) lat) # rest)"
    using run_diffusion_with_first_snapshot [OF assms] by blast
  from run_diffusion_with_events [OF assms run]
  consider (silent) "evs = []" "length (timesteps p) \<le> 1 \<or> (\<exists>e. r = Inl e)"
    | (refused) lat where
        "prepare_input_latents self (init_latents p) (timesteps p) (noise p) = Inr lat"
        "1 < length (timesteps p)"
        "evs = [StepCallback (PipelineIntermediateState 0 1 (total_steps p)
                                (py_int (hd (timesteps p))) lat)]"
        "r = Inl AssertionError"
    | (looped) lat rest ext where
        "prepare_input_latents self (init_latents p) (timesteps p) (noise p) = Inr lat"
        "1 < length (timesteps p)"
        "evs = StepCallback (PipelineIntermediateState 0 1 (total_steps p)
                               (py_int (hd (timesteps p))) lat) # rest"
        "denoise_loop env (transformer_info p) pooled do_classifier_free_guidance
           (prompt_embeds p) (cfg_scale p) ext (total_steps p)
           (List.enumerate 0 (zip (butlast (timesteps p)) (tl (timesteps p)))) lat = (rest, r)"
    unfolding timestep_pairs_def by blast
  then have others: "(length (timesteps p) \<le> 1 \<longrightarrow> fst (run_diffusion_with pooled env self) = [])
       \<and> (fst (run_diffusion_with pooled env self) \<noteq> [] \<longrightarrow>
            (\<exists>lat. prepare_input_latents self (init_latents p) (timesteps p) (noise p) = Inr lat \<and>
                   hd (fst (run_diffusion_with pooled env self)) =
                     StepCallback (PipelineIntermediateState 0 1 (total_steps p)
                                     (py_int (hd (timesteps p))) lat)))
       \<and> map state_step (snapshots (fst (run_diffusion_with pooled env self))) =
            map int [0..<length (snapshots (fst (run_diffusion_with pooled env self)))]
       \<and> (\<forall>st \<in> set (snapshots (fst (run_diffusion_with pooled env self))).
             state_total_steps st = total_steps p)
       \<and> (\<forall>lat. snd (run_diffusion_with pooled env self) = Inr lat \<and> 1 < length (timesteps p) \<longrightarrow>
             int (length (snapshots (fst (run_diffusion_with pooled env self)))) =
               total_steps p + 1)"
  proof cases
    case silent
    with run show ?thesis by auto
  next
    case refused
    with run show ?thesis by simp
  next
    case looped
    note loop = denoise_loop_snapshots [OF looped(4)]
    let ?m = "length (snapshots rest)"
    have "map state_step (snapshots evs) = 0 # map int [Suc 0..<Suc 0 + ?m]"
      using looped(3) loop by simp
    also have "\<dots> = map int [0..<Suc ?m]"
      by (simp add: upt_conv_Cons del: upt_Suc)
    finally have steps: "map state_step (snapshots evs) = map int [0..<length (snapshots evs)]"
      using looped(3) by simp
    have totals: "\<forall>st \<in> set (snapshots evs). state_total_steps st = total_steps p"
      using looped(3) loop by simp
    have returned: "\<forall>lat'. r = Inr lat' \<longrightarrow> int (length (snapshots evs)) = total_steps p + 1"
      using looped(2,3) loop total by auto
    from run looped(1,2,3) steps totals returned show ?thesis
      by simp
  qed
  from emitted others show ?thesis
    by blast
qed

text \<open>
  One step of the concrete environment, with the name bound: the snapshot of step 0, the
  call of the transformer and the snapshot of step 1.
\<close>

theorem progress_snapshots_witness:
  "prepare_run stub_env stub_invocation =
     Inr \<lparr> transformer_info = stub_transformer, prompt_embeds = [0, 1],
           scheduler_timesteps = [1000], timesteps = [1, 0], total_steps = 1,
           cfg_scale = [7 / 2], init_latents = None, noise = [42] \<rparr>
   \<and> prepare_input_latents stub_invocation None [1, 0] [42::real] = Inr [42]
   \<and> 1 < length [1, 0::real]
   \<and> prep_inpaint_mask stub_env [42] = None
   \<and> fst (run_diffusion_with (Some [0]) stub_env stub_invocation) =
       [StepCallback (PipelineIntermediateState 0 1 1 1 [42]),
        TransformerCall [42, 42] [1000, 1000] [0, 1] [0],
        StepCallback (PipelineIntermediateState 1 1 1 1 [40])]
   \<and> snd (run_diffusion_with (Some [0]) stub_env stub_invocation) = Inr [40]
   \<and> map state_step (snapshots (fst (run_diffusion_with (Some [0]) stub_env stub_invocation))) =
       [0, 1]
   \<and> int (length (snapshots (fst (run_diffusion_with (Some [0]) stub_env stub_invocation)))) =
       1 + 1"
proof -
  have input: "prepare_input_latents stub_invocation None [1, 0] [42::real] = Inr [42]"
    by (simp add: prepare_input_latents_def stub_invocation_def double_1e_minus_5_def)
  have mask: "prep_inpaint_mask stub_env [42] = None"
    by (simp add: stub_env_def)
  from progress_snapshots [OF stub_prepare_one_step, of "Some [0]"]
    stub_prepare_one_step run_diffusion_with_binding_one_step input mask
  show ?thesis
    by simp
qed

text \<open>
  Claim C10, as stated, fails where the schedule is clipped to a single timestep: the run
  returns the re-noised latents, \<open>total_steps + 1\<close> is 1, and no snapshot was emitted.
\<close>

theorem one_timestep_emits_no_snapshot:
  "map_sum id (\<lambda>p. (timesteps p, total_steps p + 1))
     (prepare_run stub_env
        (stub_invocation\<lparr>self_latents := Some ''stored'', self_denoising_start := 1 / 2,
                          self_denoising_end := 1 / 2\<rparr>)) = Inr ([1 / 2], 1)
   \<and> run_diffusion stub_env
        (stub_invocation\<lparr>self_latents := Some ''stored'', self_denoising_start := 1 / 2,
                          self_denoising_end := 1 / 2\<rparr>) = ([], Inr [26])"
  unfolding run_diffusion_def run_diffusion_with_def stub_prepare_renoise
  by (simp add: loop_defs)

subsection \<open>The input latents and the run that only re-noises\<close>



subsection \<open>A denoising start without initial latents\<close>

text \<open>
  Claim C8, as amended. Without initial latents, a denoising start above the double
  \<^verbatim>\<open>1e-5\<close> ends the run with an error before the loop: nothing is emitted, no step is taken
  and nothing is returned. The error is the \<^verbatim>\<open>ValueError\<close> of the check whenever the preparation before it
  succeeds; an error of the preparation comes first otherwise.
\<close>

theorem denoising_start_without_latents:
  assumes "self_latents self = None" and "self_denoising_start self > double_1e_minus_5"
  shows "(\<exists>e. run_diffusion_with pooled env self = ([], Inl e))
       \<and> (\<forall>p. prepare_run env self = Inr p \<longrightarrow>
             run_diffusion_with pooled env self =
               ([], Inl (ValueError
                          ''denoising_start should be 0 when initial latents are not provided.'')))"
proof -
  have raised: "run_diffusion_with pooled env self =
                  ([], Inl (ValueError
                             ''denoising_start should be 0 when initial latents are not provided.''))"
    if "prepare_run env self = Inr p" for p
  proof -
    from prepare_run_Inr(7) [OF that] assms(1) have "init_latents p = None"
      by simp
    with that assms(2) show ?thesis
      by (simp add: run_diffusion_with_def prepare_input_latents_def)
  qed
  show ?thesis
  proof (cases "prepare_run env self")
    case (Inl e)
    then have "run_diffusion_with pooled env self = ([], Inl e)"
      by (simp add: run_diffusion_with_def)
    with Inl show ?thesis by simp
  next
    case (Inr p)
    with raised [OF Inr] show ?thesis by simp
  qed
qed

text \<open>A denoising start of one half on the invocation of the examples.\<close>

theorem denoising_start_without_latents_witness:
  "self_latents (stub_invocation\<lparr>self_denoising_start := 1 / 2\<rparr>) = None
   \<and> self_denoising_start (stub_invocation\<lparr>self_denoising_start := 1 / 2\<rparr>)
       > double_1e_minus_5
   \<and> run_diffusion_with None stub_env (stub_invocation\<lparr>self_denoising_start := 1 / 2\<rparr>) =
       ([], Inl (ValueError
                  ''denoising_start should be 0 when initial latents are not provided.''))"
proof -
  have pre: "self_latents (stub_invocation\<lparr>self_denoising_start := 1 / 2\<rparr>) = None"
    "self_denoising_start (stub_invocation\<lparr>self_denoising_start := 1 / 2\<rparr>)
       > double_1e_minus_5"
    by (simp_all add: stub_invocation_def double_1e_minus_5_def)
  from denoising_start_without_latents [OF pre, of None stub_env] stub_prepare_half_start pre
  show ?thesis by simp
qed

text \<open>
  Claim C8, as stated, fails for a denoising start above 0 and not above the double
  \<^verbatim>\<open>1e-5\<close>: the check \<^verbatim>\<open>self.denoising_start > 1e-5\<close> lets \<open>2\<^sup>-\<^sup>2\<^sup>0\<close> pass (a double, a little
  below one millionth), and the run returns the noise; it lets the double \<^verbatim>\<open>1e-5\<close> itself
  pass as well.
\<close>

theorem small_denoising_start_is_accepted:
  "(0::real) < 1 / 1048576
   \<and> prepare_input_latents
        (stub_invocation\<lparr>self_denoising_start := 1 / 1048576,
                          self_denoising_end := 1 / 1048576\<rparr>)
        None [1048575 / 1048576] [42::real] = Inr [42]
   \<and> run_diffusion stub_env
        (stub_invocation\<lparr>self_denoising_start := 1 / 1048576,
                          self_denoising_end := 1 / 1048576\<rparr>) = ([], Inr [42])
   \<and> 0 < double_1e_minus_5
   \<and> prepare_input_latents (stub_invocation\<lparr>self_denoising_start := double_1e_minus_5\<rparr>)
        None [1, 0] [42::real] = Inr [42]"
  unfolding run_diffusion_def run_diffusion_with_def stub_prepare_tiny_start
  by (simp add: prepare_input_latents_def double_1e_minus_5_def)

subsection \<open>Classifier-free guidance is always on\<close>

text \<open>
  Claim C9. The flag is the constant \<open>True\<close>. In every run whose preparation succeeds, both
  conditionings have been loaded and the embeddings of the run are the negative ones
  followed by the positive ones; and every call of the transformer, whatever
  \<^verbatim>\<open>pooled_prompt_embeds\<close> is bound to, receives the current latents twice along the batch
  axis together with these embeddings, so that no call is made with the latents alone.
\<close>

theorem guidance_always_enabled:
  assumes "prepare_run env self = Inr p"
  shows "do_classifier_free_guidance
       \<and> (\<exists>pos neg.
             load_text_conditioning env (self_positive_conditioning self)
               (choose_torch_dtype env) (choose_torch_device env) = Inr pos \<and>
             load_text_conditioning env (self_negative_conditioning self)
               (choose_torch_dtype env) (choose_torch_device env) = Inr neg \<and>
             prompt_embeds p = neg @ pos)
       \<and> calls_doubled (prompt_embeds p) None (fst (run_diffusion_with pooled env self))"
proof -
  obtain evs r where run: "run_diffusion_with pooled env self = (evs, r)"
    by (cases "run_diffusion_with pooled env self")
  from run_diffusion_with_events [OF assms run]
  consider (silent) "evs = []"
    | (refused) st where "evs = [StepCallback st]"
    | (looped) lat rest ext n where
        "evs = StepCallback (PipelineIntermediateState 0 1 n (py_int (hd (timesteps p))) lat) # rest"
        "denoise_loop env (transformer_info p) pooled True (prompt_embeds p) (cfg_scale p) ext
           (total_steps p) (timestep_pairs (timesteps p)) lat = (rest, r)"
    unfolding do_classifier_free_guidance_def by blast
  then have "calls_doubled (prompt_embeds p) None evs"
  proof cases
    case silent
    then show ?thesis by simp
  next
    case refused
    then show ?thesis by simp
  next
    case looped
    from denoise_loop_calls_doubled [OF looped(2)] looped(1) show ?thesis
      by simp
  qed
  with run prepare_run_Inr(3) [OF assms] show ?thesis
    by (simp add: do_classifier_free_guidance_def)
qed

text \<open>One step of the concrete environment, with the name bound.\<close>

theorem guidance_always_enabled_witness:
  "prepare_run stub_env stub_invocation =
     Inr \<lparr> transformer_info = stub_transformer, prompt_embeds = [0, 1],
           scheduler_timesteps = [1000], timesteps = [1, 0], total_steps = 1,
           cfg_scale = [7 / 2], init_latents = None, noise = [42] \<rparr>
   \<and> fst (run_diffusion_with (Some [0]) stub_env stub_invocation) =
       [StepCallback (PipelineIntermediateState 0 1 1 1 [42]),
        TransformerCall [42, 42] [1000, 1000] [0, 1] [0],
        StepCallback (PipelineIntermediateState 1 1 1 1 [40])]
   \<and> calls_doubled [0, 1] None (fst (run_diffusion_with (Some [0]) stub_env stub_invocation))"
  using guidance_always_enabled [OF stub_prepare_one_step, of "Some [0]"]
    stub_prepare_one_step run_diffusion_with_binding_one_step
  by simp

end
